theory Spec2Isabelle
  imports Main "HOL-Library.AList"
begin

section \<open>JavaScript values\<close>

text \<open>
  The wrapper passes documents, identifiers, errors and response bodies through without
  looking inside them, except for a few property reads and truthiness tests. A value is
  a JSON value, \<open>undefined\<close>, or a function object. The wrapper never computes with a
  number: it tests it, compares it and turns it into a string, so a number is held as
  the text that ToString gives it (\<open>3\<close>, \<open>-7\<close>, \<open>0.5\<close>, \<open>1e+21\<close>, \<open>NaN\<close>; both zeros
  are \<open>0\<close>). A function object, built into the runtime or written by the caller, is
  held likewise as the text that ToString gives it. An object is the list of its own
  properties, read by first match.
\<close>

datatype jsval =
    JUndefined
  | JNull
  | JBool bool
  | JNum string
  | JStr string
  | JArr "jsval list"
  | JObj "(string \<times> jsval) list"
  | JFun string

datatype js_exception = TypeError

text \<open>ToBoolean, as \<open>if (x)\<close> and \<open>x || y\<close> apply it.\<close>

fun truthy :: "jsval \<Rightarrow> bool" where
  "truthy JUndefined = False"
| "truthy JNull = False"
| "truthy (JBool b) = b"
| "truthy (JNum n) = (n \<noteq> ''0'' \<and> n \<noteq> ''NaN'')"
| "truthy (JStr s) = (s \<noteq> [])"
| "truthy (JArr xs) = True"
| "truthy (JObj kvs) = True"
| "truthy (JFun t) = True"

fun is_array :: "jsval \<Rightarrow> bool" where
  "is_array (JArr xs) = True"
| "is_array v = False"

text \<open>\<open>if (!Array.isArray(x)) { x = [x]; }\<close>, as \<open>insert\<close> and \<open>checkDbExists\<close> begin.\<close>

definition to_array :: "jsval \<Rightarrow> jsval list" where
  "to_array x = (if \<not> is_array x then [x] else (case x of JArr xs \<Rightarrow> xs | _ \<Rightarrow> []))"

text \<open>
  The decimal digits of a natural number, as ToString writes an array index or the
  length of an array.
\<close>

fun digits :: "nat \<Rightarrow> string" where
  "digits n =
     (if n < 10 then [''0123456789'' ! n]
      else digits (n div 10) @ [''0123456789'' ! (n mod 10)])"

declare digits.simps [simp del]

fun join_comma :: "string list \<Rightarrow> string" where
  "join_comma [] = []"
| "join_comma [s] = s"
| "join_comma (s # t # ss) = s @ CHR '','' # join_comma (t # ss)"

text \<open>
  ToString, which also gives the property key of a computed read \<open>o[k]\<close> and the result
  of \<open>k + s\<close> for a string \<open>s\<close>. An array is joined with commas, null and undefined
  elements as empty strings.
\<close>

fun js_to_string :: "jsval \<Rightarrow> string" where
  "js_to_string JUndefined = ''undefined''"
| "js_to_string JNull = ''null''"
| "js_to_string (JBool b) = (if b then ''true'' else ''false'')"
| "js_to_string (JNum n) = n"
| "js_to_string (JStr s) = s"
| "js_to_string (JArr xs) =
     join_comma (map (\<lambda>x. case x of JUndefined \<Rightarrow> [] | JNull \<Rightarrow> [] | _ \<Rightarrow> js_to_string x) xs)"
| "js_to_string (JObj kvs) = ''[object Object]''"
| "js_to_string (JFun t) = t"

text \<open>
  The own properties of a value, read by key: a TypeError on undefined and null, the
  own property of an object, the length and the elements of an array or a string, and
  undefined where the value has no own property of that name. This is the read \<open>o[k]\<close>
  for a key that no prototype carries, such as \<open>_rev\<close>; \<open>js_get\<close> below is the read
  for every key.
\<close>

fun get_prop :: "jsval \<Rightarrow> string \<Rightarrow> js_exception + jsval" where
  "get_prop JUndefined k = Inl TypeError"
| "get_prop JNull k = Inl TypeError"
| "get_prop (JBool b) k = Inr JUndefined"
| "get_prop (JNum n) k = Inr JUndefined"
| "get_prop (JStr s) k =
     Inr (if k = ''length'' then JNum (digits (length s))
          else case find (\<lambda>i. digits i = k) [0..<length s] of
                 Some i \<Rightarrow> JStr [s ! i]
               | None \<Rightarrow> JUndefined)"
| "get_prop (JArr xs) k =
     Inr (if k = ''length'' then JNum (digits (length xs))
          else case find (\<lambda>i. digits i = k) [0..<length xs] of
                 Some i \<Rightarrow> xs ! i
               | None \<Rightarrow> JUndefined)"
| "get_prop (JObj kvs) k = Inr (case map_of kvs k of Some v \<Rightarrow> v | None \<Rightarrow> JUndefined)"
| "get_prop (JFun t) k = Inr JUndefined"

fun has_own :: "jsval \<Rightarrow> string \<Rightarrow> bool" where
  "has_own (JObj kvs) k = (map_of kvs k \<noteq> None)"
| "has_own (JArr xs) k = (k = ''length'' \<or> find (\<lambda>i. digits i = k) [0..<length xs] \<noteq> None)"
| "has_own (JStr s) k = (k = ''length'' \<or> find (\<lambda>i. digits i = k) [0..<length s] \<noteq> None)"
| "has_own v k = False"

section \<open>The runtime: inherited members and calls\<close>

text \<open>
  What a value inherits from its prototype chain, and what a call of a function object
  returns, belong to the JavaScript runtime and not to the wrapper; both are parameters.
  \<open>inherited rt v k\<close> is the member \<open>k\<close> that \<open>v\<close> has without owning it (for an object
  \<open>toString\<close>, \<open>constructor\<close>, \<open>hasOwnProperty\<close>; for an array also \<open>map\<close>, \<open>reduce\<close>;
  for a function object every member it has), undefined when there is none.
  \<open>invoke rt f self args\<close> is the result of calling the function object \<open>f\<close> on \<open>self\<close>
  with \<open>args\<close>.
\<close>

record runtime =
  inherited :: "jsval \<Rightarrow> string \<Rightarrow> jsval"
  invoke :: "jsval \<Rightarrow> jsval \<Rightarrow> jsval list \<Rightarrow> js_exception + jsval"

text \<open>
  The read \<open>o[k]\<close>: a TypeError on undefined and null; the own property where there is
  one, which hides an inherited member of the same name; the inherited member otherwise.
\<close>

definition js_get :: "runtime \<Rightarrow> jsval \<Rightarrow> string \<Rightarrow> js_exception + jsval" where
  "js_get rt v k =
     (case get_prop v k of
        Inl ex \<Rightarrow> Inl ex
      | Inr x \<Rightarrow> Inr (if has_own v k then x else inherited rt v k))"

text \<open>The call \<open>f.call(self, args)\<close>: only a function object can be called.\<close>

definition js_call :: "runtime \<Rightarrow> jsval \<Rightarrow> jsval \<Rightarrow> jsval list \<Rightarrow> js_exception + jsval" where
  "js_call rt f self args = (case f of JFun t \<Rightarrow> invoke rt f self args | _ \<Rightarrow> Inl TypeError)"

text \<open>
  The property key of a computed read \<open>o[key]\<close>. A primitive value gives its ToString.
  An array, an object or a function object is first turned into a primitive value: its
  \<open>toString\<close> member is called if it is a function object, then its \<open>valueOf\<close> member,
  and the first result that is a primitive value is taken; a TypeError is thrown when
  neither gives one.
\<close>

fun is_primitive :: "jsval \<Rightarrow> bool" where
  "is_primitive (JArr xs) = False"
| "is_primitive (JObj kvs) = False"
| "is_primitive (JFun t) = False"
| "is_primitive v = True"

definition try_method ::
  "runtime \<Rightarrow> jsval \<Rightarrow> string \<Rightarrow> js_exception + jsval \<Rightarrow> js_exception + jsval" where
  "try_method rt v name otherwise =
     (case js_get rt v name of
        Inl ex \<Rightarrow> Inl ex
      | Inr m \<Rightarrow>
          (case m of
             JFun t \<Rightarrow>
               (case invoke rt m v [] of
                  Inl ex \<Rightarrow> Inl ex
                | Inr r \<Rightarrow> if is_primitive r then Inr r else otherwise)
           | _ \<Rightarrow> otherwise))"

definition js_to_key :: "runtime \<Rightarrow> jsval \<Rightarrow> js_exception + string" where
  "js_to_key rt v =
     (if is_primitive v then Inr (js_to_string v)
      else case try_method rt v ''toString'' (try_method rt v ''valueOf'' (Inl TypeError)) of
             Inl ex \<Rightarrow> Inl ex
           | Inr p \<Rightarrow> Inr (js_to_string p))"

text \<open>
  The read \<open>o[key]\<close> with a computed key: a TypeError on undefined and null, then the
  conversion of the key, then the read.
\<close>

definition js_get_at :: "runtime \<Rightarrow> jsval \<Rightarrow> jsval \<Rightarrow> js_exception + jsval" where
  "js_get_at rt v key =
     (if v = JUndefined \<or> v = JNull then Inl TypeError
      else case js_to_key rt key of
             Inl ex \<Rightarrow> Inl ex
           | Inr k \<Rightarrow> js_get rt v k)"

text \<open>
  One runtime, for the statements that need a concrete one: the members that ECMAScript
  5.1 gives the built-in prototype objects (sections 15.2.4 to 15.7.4, and \<open>substr\<close> of
  Annex B), with the accessor \<open>__proto__\<close> and the four accessor helpers that every
  Node release adds to \<open>Object.prototype\<close>. A built-in function reads as Node prints
  it. Later releases add members, and a function object has a \<open>length\<close> and a \<open>name\<close>
  of its own, which this table does not list. \<open>invoke\<close> answers for \<open>hasOwnProperty\<close>,
  the one method the wrapper calls through a property read, and for \<open>toString\<close> and
  \<open>valueOf\<close>, which the conversion of a key calls; \<open>toString\<close> joins the elements of an
  array as \<open>js_to_string\<close> writes them. A call of any other function object is not
  interpreted. The theorems are stated for every runtime.
\<close>

definition native :: "string \<Rightarrow> jsval" where
  "native name = JFun (''function '' @ name @ ''() { [native code] }'')"

definition object_members :: "string list" where
  "object_members =
     [''constructor'', ''toString'', ''toLocaleString'', ''valueOf'', ''hasOwnProperty'',
      ''isPrototypeOf'', ''propertyIsEnumerable'', ''__defineGetter__'',
      ''__defineSetter__'', ''__lookupGetter__'', ''__lookupSetter__'']"

fun prototype_members :: "jsval \<Rightarrow> string list" where
  "prototype_members (JArr xs) =
     [''concat'', ''join'', ''pop'', ''push'', ''reverse'', ''shift'', ''slice'', ''sort'',
      ''splice'', ''unshift'', ''indexOf'', ''lastIndexOf'', ''every'', ''some'', ''forEach'',
      ''map'', ''filter'', ''reduce'', ''reduceRight''] @ object_members"
| "prototype_members (JStr s) =
     [''charAt'', ''charCodeAt'', ''concat'', ''indexOf'', ''lastIndexOf'', ''localeCompare'',
      ''match'', ''replace'', ''search'', ''slice'', ''split'', ''substring'', ''substr'',
      ''toLowerCase'', ''toLocaleLowerCase'', ''toUpperCase'', ''toLocaleUpperCase'',
      ''trim''] @ object_members"
| "prototype_members (JNum n) =
     [''toFixed'', ''toExponential'', ''toPrecision''] @ object_members"
| "prototype_members (JBool b) = object_members"
| "prototype_members (JObj kvs) = object_members"
| "prototype_members (JFun t) = [''apply'', ''call'', ''bind''] @ object_members"
| "prototype_members v = []"

fun constructor_name :: "jsval \<Rightarrow> string" where
  "constructor_name (JArr xs) = ''Array''"
| "constructor_name (JStr s) = ''String''"
| "constructor_name (JNum n) = ''Number''"
| "constructor_name (JBool b) = ''Boolean''"
| "constructor_name (JFun t) = ''Function''"
| "constructor_name v = ''Object''"

fun prototype_object :: "jsval \<Rightarrow> jsval" where
  "prototype_object (JArr xs) = JArr []"
| "prototype_object (JFun t) = JFun ''function () { [native code] }''"
| "prototype_object v = JObj []"

definition node_runtime :: runtime where
  "node_runtime =
     \<lparr>inherited = (\<lambda>v k.
        if k = ''__proto__'' \<and> v \<noteq> JUndefined \<and> v \<noteq> JNull then prototype_object v
        else if k \<in> set (prototype_members v)
        then native (if k = ''constructor'' then constructor_name v else k)
        else JUndefined),
      invoke = (\<lambda>f self args.
        if f = native ''hasOwnProperty''
        then Inr (JBool (has_own self (js_to_string (case args of [] \<Rightarrow> JUndefined | a # as \<Rightarrow> a))))
        else if f = native ''toString'' then Inr (JStr (js_to_string self))
        else if f = native ''valueOf'' then Inr self
        else Inl TypeError)\<rparr>"

section \<open>extractIds\<close>

text \<open>
  The loop of \<open>extractIds\<close> over \<open>data\<close>, with \<open>store\<close> as it grows. The right operand
  of \<open>||\<close> is evaluated only when the left one is falsy, and reading a property of an
  undefined \<open>data[i].value\<close> throws. \<open>fieldName\<close> is a value, turned into a key at each
  read \<open>[fieldName]\<close>.
\<close>

fun extract_loop ::
  "runtime \<Rightarrow> jsval list \<Rightarrow> jsval \<Rightarrow> jsval list \<Rightarrow> js_exception + jsval list" where
  "extract_loop rt [] fieldName store = Inr store"
| "extract_loop rt (x # rest) fieldName store =
     (case js_get_at rt x fieldName of
        Inl ex \<Rightarrow> Inl ex
      | Inr v \<Rightarrow>
          if truthy v then extract_loop rt rest fieldName (store @ [v])
          else (case js_get rt x ''value'' of
                  Inl ex \<Rightarrow> Inl ex
                | Inr w \<Rightarrow>
                    (case js_get_at rt w fieldName of
                       Inl ex \<Rightarrow> Inl ex
                     | Inr u \<Rightarrow> extract_loop rt rest fieldName (store @ [u]))))"

definition extractIds :: "runtime \<Rightarrow> jsval list \<Rightarrow> jsval \<Rightarrow> js_exception + jsval list" where
  "extractIds rt data fieldName =
     (let fieldName' = (if truthy fieldName then fieldName else JStr ''id'')
      in extract_loop rt data fieldName' [])"

section \<open>The transport client, deferreds and the event loop\<close>

text \<open>
  The transport client (nano) is not part of the wrapper. A call to it is recorded as a
  request, with the arguments that precede the completion callback, and its callback is
  kept until the client answers. nano answers over HTTP: a callback runs in a later turn
  of the event loop, after the wrapper function that issued the request has returned,
  and at most once. The client answers the waiting requests in any order, each with an
  \<open>error\<close> and a \<open>body\<close> argument; a failure is an answer whose \<open>error\<close> is truthy.
  Output to the console is not modelled.
\<close>

datatype request =
    DbDestroy string
  | DbCreate string
  | DbList
  | DocInsert string "jsval list"
  | DocGet string "jsval list"
  | DocList string
  | DocView string "jsval list"
  | DocDestroy string "jsval list"

text \<open>
  The callbacks of the source, each with the variables it closes over: the number of its
  deferred and, where the source has them, the database name and the document id.
\<close>

datatype callback =
    DestroyCb nat
  | CreateCb nat
  | InsertCb nat
  | GetCb nat
  | GetListCb nat
  | AddDesignCb nat
  | CheckCb nat jsval
  | GetViewCb nat
  | RevCb nat string jsval
  | DeleteCb nat

datatype promise_state = Pending | Fulfilled jsval | Rejected jsval

text \<open>
  The state of one invocation: the requests issued so far, the callbacks still waiting
  (by request number), the deferreds made by \<open>q.defer()\<close>, the deferreds in the order
  they were rejected, the closure variables \<open>dbList\<close> of \<open>checkDbExists\<close> and \<open>index\<close>
  of \<open>into\<close>, and the exceptions thrown out of callbacks.
\<close>

record state =
  issued :: "request list"
  waiting :: "(nat \<times> callback) list"
  defers :: "promise_state list"
  rejections :: "nat list"
  dbList :: jsval
  index :: nat
  uncaught :: "js_exception list"

definition init :: state where
  "init = \<lparr>issued = [], waiting = [], defers = [], rejections = [],
            dbList = JUndefined, index = 0, uncaught = []\<rparr>"

definition q_defer :: "state \<Rightarrow> nat \<times> state" where
  "q_defer st = (length (defers st), st\<lparr>defers := defers st @ [Pending]\<rparr>)"

text \<open>Settling a deferred that is already settled does nothing.\<close>

definition resolve :: "nat \<Rightarrow> jsval \<Rightarrow> state \<Rightarrow> state" where
  "resolve d v st =
     (if d < length (defers st) \<and> defers st ! d = Pending
      then st\<lparr>defers := (defers st)[d := Fulfilled v]\<rparr> else st)"

definition reject :: "nat \<Rightarrow> jsval \<Rightarrow> state \<Rightarrow> state" where
  "reject d e st =
     (if d < length (defers st) \<and> defers st ! d = Pending
      then st\<lparr>defers := (defers st)[d := Rejected e], rejections := rejections st @ [d]\<rparr>
      else st)"

definition throw :: "js_exception \<Rightarrow> state \<Rightarrow> state" where
  "throw ex st = st\<lparr>uncaught := uncaught st @ [ex]\<rparr>"

definition call :: "request \<Rightarrow> callback \<Rightarrow> state \<Rightarrow> state" where
  "call req cb st =
     st\<lparr>issued := issued st @ [req], waiting := waiting st @ [(length (issued st), cb)]\<rparr>"

text \<open>
  A promise handed to the caller: the promise of one deferred, or \<open>q.all\<close> of the
  promises of several. \<open>q.all\<close> is rejected with the reason of the first of its promises
  to be rejected, is fulfilled with the array of their values, in the order of the
  promises, once all are fulfilled, and is pending otherwise.
\<close>

datatype promise = Deferred nat | All "nat list"

fun is_fulfilled :: "promise_state \<Rightarrow> bool" where
  "is_fulfilled (Fulfilled v) = True"
| "is_fulfilled p = False"

fun fulfilled_value :: "promise_state \<Rightarrow> jsval" where
  "fulfilled_value (Fulfilled v) = v"
| "fulfilled_value p = JUndefined"

fun inspect :: "promise \<Rightarrow> state \<Rightarrow> promise_state" where
  "inspect (Deferred d) st = defers st ! d"
| "inspect (All ps) st =
     (case filter (\<lambda>d. d \<in> set ps) (rejections st) of
        d # ds \<Rightarrow> defers st ! d
      | [] \<Rightarrow>
          if list_all (\<lambda>d. is_fulfilled (defers st ! d)) ps
          then Fulfilled (JArr (map (\<lambda>d. fulfilled_value (defers st ! d)) ps))
          else Pending)"

section \<open>Array.prototype.indexOf and String.prototype.indexOf\<close>

text \<open>
  Strict equality: primitives by their content (NaN equals nothing); an array, an object
  or a function object only with itself, and the values compared here never share an
  identity (one comes from the caller, the other from a parsed response).
\<close>

fun strict_eq :: "jsval \<Rightarrow> jsval \<Rightarrow> bool" where
  "strict_eq JUndefined JUndefined = True"
| "strict_eq JNull JNull = True"
| "strict_eq (JBool a) (JBool b) = (a = b)"
| "strict_eq (JNum a) (JNum b) = (a = b \<and> a \<noteq> ''NaN'')"
| "strict_eq (JStr a) (JStr b) = (a = b)"
| "strict_eq a b = False"

fun array_indexOf :: "jsval list \<Rightarrow> jsval \<Rightarrow> int" where
  "array_indexOf [] v = - 1"
| "array_indexOf (x # xs) v =
     (if strict_eq x v then 0
      else (let i = array_indexOf xs v in if i = - 1 then - 1 else i + 1))"

fun string_indexOf :: "string \<Rightarrow> string \<Rightarrow> int" where
  "string_indexOf [] k = (if k = [] then 0 else - 1)"
| "string_indexOf (c # s) k =
     (if take (length k) (c # s) = k then 0
      else (let i = string_indexOf s k in if i = - 1 then - 1 else i + 1))"

text \<open>
  \<open>l.indexOf(v)\<close>: the method of arrays and of strings; on anything else the member is
  missing (or, on null and undefined, the read itself fails) and the call throws.
\<close>

fun js_indexOf :: "jsval \<Rightarrow> jsval \<Rightarrow> js_exception + int" where
  "js_indexOf (JArr xs) v = Inr (array_indexOf xs v)"
| "js_indexOf (JStr s) v = Inr (string_indexOf s (js_to_string v))"
| "js_indexOf l v = Inl TypeError"

section \<open>The callbacks\<close>

text \<open>
  \<open>runChecks\<close> of \<open>checkDbExists\<close>, reading the closure variable \<open>dbList\<close>. In the
  callback of the revision fetch, \<open>revInfo._rev\<close> is the read of an own property: no
  prototype carries \<open>_rev\<close>.
\<close>

definition runChecks :: "nat \<Rightarrow> jsval \<Rightarrow> state \<Rightarrow> state" where
  "runChecks d dbName st =
     (case js_indexOf (dbList st) dbName of
        Inl ex \<Rightarrow> throw ex st
      | Inr i \<Rightarrow> resolve d (JBool (i \<noteq> - 1)) st)"

fun run_callback :: "callback \<Rightarrow> jsval \<Rightarrow> jsval \<Rightarrow> state \<Rightarrow> state" where
  "run_callback (DestroyCb d) error body st =
     (if truthy error then reject d error st else resolve d JUndefined st)"
| "run_callback (CreateCb d) error body st =
     (if truthy error then reject d error st else resolve d JUndefined st)"
| "run_callback (InsertCb d) error body st =
     (if truthy error then reject d error st
      else (resolve d body st)\<lparr>index := index st + 1\<rparr>)"
| "run_callback (GetCb d) error body st =
     (if truthy error then reject d error st else resolve d body st)"
| "run_callback (GetListCb d) error body st =
     (if truthy error then reject d error st else resolve d body st)"
| "run_callback (AddDesignCb d) error body st =
     (if \<not> truthy error then resolve d body st else reject d error st)"
| "run_callback (CheckCb d dbName) error body st =
     runChecks d dbName (st\<lparr>dbList := body\<rparr>)"
| "run_callback (GetViewCb d) error body st =
     (if truthy error then reject d error st else resolve d body st)"
| "run_callback (RevCb d db docId) revError revInfo st =
     (if truthy revError then reject d revError st
      else (case get_prop revInfo ''_rev'' of
              Inl ex \<Rightarrow> throw ex st
            | Inr rv \<Rightarrow> call (DocDestroy db [docId, rv]) (DeleteCb d) st))"
| "run_callback (DeleteCb d) error body st =
     (if truthy error then reject d error st else resolve d body st)"


text \<open>
  The client answers request \<open>r\<close> with \<open>error\<close> and \<open>body\<close>: the waiting callback runs
  and is forgotten. An answer to a request that is not waiting is not delivered.
\<close>

definition deliver :: "nat \<Rightarrow> jsval \<Rightarrow> jsval \<Rightarrow> state \<Rightarrow> state" where
  "deliver r error body st =
     (case map_of (waiting st) r of
        None \<Rightarrow> st
      | Some cb \<Rightarrow>
          run_callback cb error body (st\<lparr>waiting := filter (\<lambda>(k, c). k \<noteq> r) (waiting st)\<rparr>))"

text \<open>
  A run of the event loop: the requests of \<open>order\<close> are answered one after the other,
  request \<open>r\<close> with the error \<open>fst (resp r)\<close> and the body \<open>snd (resp r)\<close>.
\<close>

definition run :: "(nat \<Rightarrow> jsval \<times> jsval) \<Rightarrow> nat list \<Rightarrow> state \<Rightarrow> state" where
  "run resp order st = fold (\<lambda>r. deliver r (fst (resp r)) (snd (resp r))) order st"

section \<open>The operations\<close>

text \<open>
  \<open>config.db.prefix\<close> comes from a module outside the wrapper and is a parameter here.
  Database names are strings.
\<close>

definition getDbName :: "jsval \<Rightarrow> string \<Rightarrow> string" where
  "getDbName prefix dbName = (if truthy prefix then js_to_string prefix @ dbName else dbName)"

definition destroy :: "jsval \<Rightarrow> string \<Rightarrow> promise \<times> state" where
  "destroy prefix dbName =
     (let (d, st) = q_defer init;
          dbName' = getDbName prefix dbName
      in (Deferred d, call (DbDestroy dbName') (DestroyCb d) st))"

definition create :: "jsval \<Rightarrow> string \<Rightarrow> promise \<times> state" where
  "create prefix dbName =
     (let (creating, st) = q_defer init;
          dbName' = getDbName prefix dbName
      in (Deferred creating, call (DbCreate dbName') (CreateCb creating) st))"

definition get_from :: "jsval \<Rightarrow> jsval \<Rightarrow> string \<Rightarrow> promise \<times> state" where
  "get_from prefix docId dbName =
     (let (d, st) = q_defer init;
          dbName' = getDbName prefix dbName
      in (Deferred d, call (DocGet dbName' [docId]) (GetCb d) st))"

definition getList_from :: "jsval \<Rightarrow> string \<Rightarrow> promise \<times> state" where
  "getList_from prefix dbName =
     (let (d, st) = q_defer init;
          dbName' = getDbName prefix dbName
      in (Deferred d, call (DocList dbName') (GetListCb d) st))"

text \<open>
  \<open>insert(items)\<close> returns a builder that closes over \<open>items\<close> and \<open>keyName\<close>;
  \<open>withKey\<close> assigns \<open>keyName\<close>, \<open>into\<close> issues the requests.
\<close>

record insert_builder =
  items :: "jsval list"
  keyName :: jsval

definition insert_op :: "jsval \<Rightarrow> insert_builder" where
  "insert_op its = \<lparr>items = to_array its, keyName = JUndefined\<rparr>"

definition withKey :: "jsval \<Rightarrow> insert_builder \<Rightarrow> insert_builder" where
  "withKey k b = b\<lparr>keyName := k\<rparr>"

text \<open>The body of \<open>items.forEach\<close> in \<open>into\<close>, with the array \<open>inserting\<close> as it grows.\<close>

fun insert_each :: "string \<Rightarrow> jsval \<Rightarrow> jsval list \<Rightarrow> nat list \<times> state \<Rightarrow> nat list \<times> state" where
  "insert_each db k [] acc = acc"
| "insert_each db k (item # rest) (inserting, st) =
     (let (d, st1) = q_defer st;
          args = (if truthy k then [item, k] else [item])
      in insert_each db k rest (inserting @ [d], call (DocInsert db args) (InsertCb d) st1))"

definition insert_into :: "jsval \<Rightarrow> insert_builder \<Rightarrow> string \<Rightarrow> promise \<times> state" where
  "insert_into prefix b dbName =
     (let dbName' = getDbName prefix dbName;
          (inserting, st) = insert_each dbName' (keyName b) (items b) ([], init)
      in (All inserting, st))"

text \<open>
  \<open>addDesign(designName, viewMaps).to(dbName)\<close>. The loop \<open>for (viewMap in viewMaps)\<close>
  visits the own properties of \<open>viewMaps\<close> (the members of the built-in prototypes are
  not enumerable); \<open>views\<close> is \<open>design.views\<close> as it grows. For each name the guard
  \<open>viewMaps.hasOwnProperty(viewMap)\<close> reads the member \<open>hasOwnProperty\<close> of \<open>viewMaps\<close>, a
  view of that name before the inherited method, and calls it. Reading \<open>.map\<close> of an
  entry that is null or undefined throws out of \<open>to\<close>, as a guard that cannot be called
  does. The assignment \<open>design.views[viewMap] = ...\<close> adds or replaces an own property,
  except under the name \<open>__proto__\<close>, where it sets the prototype of \<open>views\<close> and leaves
  its own properties as they are.
\<close>

fun build_views ::
  "runtime \<Rightarrow> (string \<times> jsval) list \<Rightarrow> string list \<Rightarrow> (string \<times> jsval) list
     \<Rightarrow> js_exception + (string \<times> jsval) list" where
  "build_views rt viewMaps [] views = Inr views"
| "build_views rt viewMaps (viewMap # rest) views =
     (case js_get rt (JObj viewMaps) ''hasOwnProperty'' of
        Inl ex \<Rightarrow> Inl ex
      | Inr guard \<Rightarrow>
          (case js_call rt guard (JObj viewMaps) [JStr viewMap] of
             Inl ex \<Rightarrow> Inl ex
           | Inr own \<Rightarrow>
               if \<not> truthy own then build_views rt viewMaps rest views
               else
                 (case js_get rt (JObj viewMaps) viewMap of
                    Inl ex \<Rightarrow> Inl ex
                  | Inr vm \<Rightarrow>
                      (case js_get rt vm ''map'' of
                         Inl ex \<Rightarrow> Inl ex
                       | Inr m \<Rightarrow>
                           (case js_get rt vm ''reduce'' of
                              Inl ex \<Rightarrow> Inl ex
                            | Inr rd \<Rightarrow>
                                (let entry = [(''map'', m)];
                                     entry' = (if truthy rd then AList.update ''reduce'' rd entry
                                               else entry)
                                 in build_views rt viewMaps rest
                                      (if viewMap = ''__proto__'' then views
                                       else AList.update viewMap (JObj entry') views)))))))"

definition addDesign_to ::
  "runtime \<Rightarrow> jsval \<Rightarrow> string \<Rightarrow> (string \<times> jsval) list \<Rightarrow> string
     \<Rightarrow> js_exception + promise \<times> state" where
  "addDesign_to rt prefix designName viewMaps dbName =
     (let (d, st) = q_defer init;
          dbName' = getDbName prefix dbName
      in case build_views rt viewMaps (map fst viewMaps) [] of
           Inl ex \<Rightarrow> Inl ex
         | Inr views \<Rightarrow>
             (let design = JObj [(''language'', JStr ''javascript''), (''views'', JObj views)]
              in Inr (Deferred d,
                      call (DocInsert dbName' [design, JStr (''_design/'' @ designName)])
                        (AddDesignCb d) st)))"

text \<open>
  \<open>checkDbExists(dbNames)\<close>: the body of \<open>dbNames.forEach\<close>, with the array \<open>promises\<close>
  as it grows. The names are used as they are given: \<open>getDbName\<close> is not called.
\<close>

fun check_each :: "jsval list \<Rightarrow> nat list \<times> state \<Rightarrow> nat list \<times> state" where
  "check_each [] acc = acc"
| "check_each (dbName # rest) (promises, st) =
     (let (d, st1) = q_defer st
      in check_each rest
           (promises @ [d],
            if truthy (dbList st1) then runChecks d dbName st1
            else call DbList (CheckCb d dbName) st1))"

definition checkDbExists :: "jsval \<Rightarrow> promise \<times> state" where
  "checkDbExists dbNames =
     (let (promises, st) = check_each (to_array dbNames) ([], init)
      in (All promises, st))"

text \<open>
  \<open>getView(designName, viewName)\<close> holds the arguments of the view request;
  \<open>withParams\<close> appends truthy parameters, \<open>from\<close> issues the request.
\<close>

definition getView :: "jsval \<Rightarrow> jsval \<Rightarrow> jsval list" where
  "getView designName viewName = [designName, viewName]"

definition withParams :: "jsval \<Rightarrow> jsval list \<Rightarrow> jsval list" where
  "withParams params args = (if truthy params then args @ [params] else args)"

definition getView_from :: "jsval \<Rightarrow> jsval list \<Rightarrow> string \<Rightarrow> promise \<times> state" where
  "getView_from prefix args dbName =
     (let (d, st) = q_defer init;
          dbName' = getDbName prefix dbName
      in (Deferred d, call (DocView dbName' args) (GetViewCb d) st))"

text \<open>
  \<open>deleteDoc(docId).from(dbName)\<close>: the database handle is taken for \<open>dbName\<close> as it
  is given; the destroy request is issued by the callback of the get request.
\<close>

definition deleteDoc_from :: "jsval \<Rightarrow> string \<Rightarrow> promise \<times> state" where
  "deleteDoc_from docId dbName =
     (let (d, st) = q_defer init
      in (Deferred d,
          call (DocGet dbName [docId, JObj [(''revs_info'', JBool True)]])
            (RevCb d dbName docId) st))"

section \<open>Lemmas about the event loop\<close>

lemma map_of_filter_neq:
  "map_of (filter (\<lambda>(k, c). k \<noteq> r) w) i = (if i = r then None else map_of w i)"
  by (induction w) auto

lemma length_defers_resolve [simp]: "length (defers (resolve d v st)) = length (defers st)"
  by (simp add: resolve_def)

lemma length_defers_reject [simp]: "length (defers (reject d e st)) = length (defers st)"
  by (simp add: reject_def)

lemma length_defers_runChecks [simp]: "length (defers (runChecks d n st)) = length (defers st)"
  by (simp add: runChecks_def throw_def split: sum.splits)

lemma length_defers_run_callback [simp]:
  "length (defers (run_callback cb e b st)) = length (defers st)"
  by (cases cb) (simp_all add: throw_def call_def split: sum.splits)

lemma length_defers_deliver [simp]: "length (defers (deliver r e b st)) = length (defers st)"
  by (simp add: deliver_def split: option.splits)

lemma length_defers_run [simp]: "length (defers (run resp order st)) = length (defers st)"
  unfolding run_def by (induction order arbitrary: st) simp_all







text \<open>The record of rejections only grows, at its end.\<close>

lemma rejections_resolve [simp]: "rejections (resolve d v st) = rejections st"
  by (simp add: resolve_def)


lemma rejections_runChecks [simp]: "rejections (runChecks d n st) = rejections st"
  by (simp add: runChecks_def throw_def split: sum.splits)




lemma run_append: "run resp (xs @ ys) st = run resp ys (run resp xs st)"
  by (simp add: run_def)

lemma run_Cons: "run resp (r # ys) st = run resp ys (deliver r (fst (resp r)) (snd (resp r)) st)"
  by (simp add: run_def)

lemma run_Nil: "run resp [] st = st"
  by (simp add: run_def)

text \<open>The state in which \<open>into\<close> returns.\<close>

lemma insert_each_append:
  "insert_each db k (xs @ ys) acc = insert_each db k ys (insert_each db k xs acc)"
proof (induction xs arbitrary: acc)
  case Nil
  then show ?case by simp
next
  case (Cons x xs)
  obtain ps st where acc: "acc = (ps, st)" by (cases acc)
  show ?case unfolding acc by (simp add: Let_def split: prod.splits add: Cons.IH)
qed

lemma insert_each_init:
  "insert_each db k its ([], init) =
     ([0..<length its],
      init\<lparr>issued := map (\<lambda>item. DocInsert db (if truthy k then [item, k] else [item])) its,
           waiting := map (\<lambda>j. (j, InsertCb j)) [0..<length its],
           defers := replicate (length its) Pending\<rparr>)"
proof (induction its rule: rev_induct)
  case Nil
  then show ?case by (simp add: init_def)
next
  case (snoc x xs)
  then show ?case
    by (simp add: insert_each_append q_defer_def call_def init_def replicate_append_same)
qed

lemma map_of_tabulate:
  "map_of (map (\<lambda>j. (j, f j)) xs) i = (if i \<in> set xs then Some (f i) else None)"
  by (induction xs) auto

text \<open>
  The state after the client has answered the requests of \<open>order\<close> to a batch insert:
  request \<open>i\<close> settles deferred \<open>i\<close>, once.
\<close>

lemma insert_run_state:
  assumes st0: "st0 = snd (insert_each db k its ([], init))"
  shows "length (defers (run resp order st0)) = length its
    \<and> issued (run resp order st0) = issued st0
    \<and> (\<forall>i. map_of (waiting (run resp order st0)) i =
          (if i < length its \<and> i \<notin> set order then Some (InsertCb i) else None))
    \<and> (\<forall>i<length its. defers (run resp order st0) ! i =
          (if i \<in> set order
           then (if truthy (fst (resp i)) then Rejected (fst (resp i)) else Fulfilled (snd (resp i)))
           else Pending))
    \<and> set (rejections (run resp order st0))
          = {i \<in> set order. i < length its \<and> truthy (fst (resp i))}"
proof (induction order rule: rev_induct)
  case Nil
  show ?case
    unfolding st0 insert_each_init run_Nil
    by (simp add: init_def map_of_tabulate)
next
  case (snoc r order)
  define st where "st = run resp order st0"
  have len: "length (defers st) = length its"
    and iss: "issued st = issued st0"
    and wait: "\<And>i. map_of (waiting st) i =
          (if i < length its \<and> i \<notin> set order then Some (InsertCb i) else None)"
    and defs: "\<And>i. i < length its \<Longrightarrow> defers st ! i =
          (if i \<in> set order
           then (if truthy (fst (resp i)) then Rejected (fst (resp i)) else Fulfilled (snd (resp i)))
           else Pending)"
    and rej: "set (rejections st) = {i \<in> set order. i < length its \<and> truthy (fst (resp i))}"
    using snoc.IH unfolding st_def by blast+
  have step: "run resp (order @ [r]) st0 = deliver r (fst (resp r)) (snd (resp r)) st"
    by (simp add: run_append run_Cons run_Nil st_def)
  show ?case
  proof (cases "r < length its \<and> r \<notin> set order")
    case False
    then have none: "map_of (waiting st) r = None" using wait [of r] by auto
    then have same: "deliver r (fst (resp r)) (snd (resp r)) st = st"
      by (simp add: deliver_def)
    show ?thesis unfolding step same
      using len iss wait defs rej False by auto
  next
    case True
    then have some: "map_of (waiting st) r = Some (InsertCb r)" using wait [of r] by simp
    have pend: "defers st ! r = Pending" using defs [of r] True by simp
    show ?thesis
    proof (cases "truthy (fst (resp r))")
      case t: True
      have eq: "deliver r (fst (resp r)) (snd (resp r)) st =
        st\<lparr>waiting := filter (\<lambda>(k, c). k \<noteq> r) (waiting st),
           defers := (defers st)[r := Rejected (fst (resp r))],
           rejections := rejections st @ [r]\<rparr>"
        using some pend True len t by (simp add: deliver_def reject_def)
      show ?thesis unfolding step eq
        using len iss wait defs rej True t
        by (auto simp: map_of_filter_neq nth_list_update)
    next
      case f: False
      have eq: "deliver r (fst (resp r)) (snd (resp r)) st =
        st\<lparr>waiting := filter (\<lambda>(k, c). k \<noteq> r) (waiting st),
           defers := (defers st)[r := Fulfilled (snd (resp r))],
           index := index st + 1\<rparr>"
        using some pend True len f by (simp add: deliver_def resolve_def)
      show ?thesis unfolding step eq
        using len iss wait defs rej True f
        by (auto simp: map_of_filter_neq nth_list_update)
    qed
  qed
qed


lemma insert_into_eq:
  "insert_into prefix b dbName =
     (All [0..<length (items b)],
      snd (insert_each (getDbName prefix dbName) (keyName b) (items b) ([], init)))"
  by (simp add: insert_into_def insert_each_init)

section \<open>Batch insert\<close>



text \<open>
  Claim C1 says that after \<open>withKey(fieldName)\<close> the insert request for item \<open>i\<close> carries
  the value of that item's field \<open>fieldName\<close> as its document identifier. The source
  splices \<open>keyName\<close> itself into the arguments of every request and never reads a field
  of an item: two documents with the names jeff and Annie are both sent under the
  identifier \<open>name\<close>.
\<close>

theorem withKey_field_value_counterexample:
  "issued (snd (insert_into JUndefined
      (withKey (JStr ''name'')
         (insert_op (JArr [JObj [(''name'', JStr ''jeff'')], JObj [(''name'', JStr ''Annie'')]])))
      ''people''))
     = [DocInsert ''people'' [JObj [(''name'', JStr ''jeff'')], JStr ''name''],
        DocInsert ''people'' [JObj [(''name'', JStr ''Annie'')], JStr ''name'']]
   \<and> get_prop (JObj [(''name'', JStr ''jeff'')]) ''name'' = Inr (JStr ''jeff'')
   \<and> JStr ''name'' \<noteq> JStr ''jeff''"
  by (simp add: insert_into_def withKey_def insert_op_def to_array_def insert_each_init
      getDbName_def Let_def)

text \<open>
  Claim C1, as the source has it. After \<open>withKey(k)\<close>, \<open>into\<close> issues one insert request
  per item, in input order, on the resolved database name; when \<open>k\<close> is truthy every
  request carries \<open>k\<close> itself, the same value for every item, as the argument after the
  document (the explicit document identifier), and when \<open>k\<close> is falsy the request
  carries the document alone.
\<close>

theorem withKey_passes_key_name:
  "issued (snd (insert_into prefix (withKey k (insert_op its)) dbName)) =
     map (\<lambda>item. DocInsert (getDbName prefix dbName) (if truthy k then [item, k] else [item]))
       (to_array its)"
  by (simp add: insert_into_def withKey_def insert_op_def insert_each_init)

text \<open>
  The aggregate of a batch of one document: pending until the one request is answered,
  then settled by that answer.
\<close>

lemma insert_one_outcome:
  assumes call: "insert_into prefix b dbName = (p, st)" and one: "items b = [d]"
  shows "inspect p (run resp order st) =
     (if 0 \<in> set order
      then (if truthy (fst (resp 0)) then Rejected (fst (resp 0))
            else Fulfilled (JArr [snd (resp 0)]))
      else Pending)"
proof -
  have p: "p = All [0]"
    and st: "st = snd (insert_each (getDbName prefix dbName) (keyName b) (items b) ([], init))"
    using call by (simp_all add: insert_into_eq one)
  note inv = insert_run_state [OF st, of resp order]
  have d0: "defers (run resp order st) ! 0 =
      (if 0 \<in> set order
       then (if truthy (fst (resp 0)) then Rejected (fst (resp 0)) else Fulfilled (snd (resp 0)))
       else Pending)"
    using inv by (simp add: one)
  have rej: "set (rejections (run resp order st)) = {i \<in> set order. i < 1 \<and> truthy (fst (resp i))}"
    using inv by (simp add: one)
  show ?thesis
  proof (cases "0 \<in> set order \<and> truthy (fst (resp 0))")
    case True
    then have "set (rejections (run resp order st)) = {0}" using rej by auto
    then obtain r rs where rr: "rejections (run resp order st) = r # rs" and "r = 0"
      by (cases "rejections (run resp order st)") auto
    then show ?thesis unfolding p using True d0 by simp
  next
    case False
    then have "set (rejections (run resp order st)) = {}" using rej by auto
    then have "rejections (run resp order st) = []" by simp
    then show ?thesis unfolding p using False d0 by auto
  qed
qed

text \<open>
  Claim C8. For a document \<open>d\<close> that is not an array, \<open>insert(d)\<close> is \<open>insert([d])\<close>: the
  builders are equal, so \<open>into\<close>, with or without \<open>withKey\<close>, returns the same promise
  and the same state and issues the same single insert request. After every run of the
  event loop the aggregate of either form is the same: pending while the request is not
  answered, fulfilled with the one-element array of the body once it is answered without
  an error, and rejected with the error once it is answered with one.
\<close>

theorem insert_single_as_batch:
  assumes "\<not> is_array d"
  shows "insert_op d = insert_op (JArr [d])
    \<and> insert_into prefix (insert_op d) dbName = insert_into prefix (insert_op (JArr [d])) dbName
    \<and> insert_into prefix (withKey k (insert_op d)) dbName
        = insert_into prefix (withKey k (insert_op (JArr [d]))) dbName
    \<and> issued (snd (insert_into prefix (withKey k (insert_op d)) dbName))
        = [DocInsert (getDbName prefix dbName) (if truthy k then [d, k] else [d])]
    \<and> inspect (fst (insert_into prefix (withKey k (insert_op d)) dbName))
          (run resp order (snd (insert_into prefix (withKey k (insert_op d)) dbName)))
        = inspect (fst (insert_into prefix (withKey k (insert_op (JArr [d]))) dbName))
          (run resp order (snd (insert_into prefix (withKey k (insert_op (JArr [d]))) dbName)))
    \<and> issued (snd (insert_into prefix (withKey k (insert_op (JArr [d]))) dbName))
        = [DocInsert (getDbName prefix dbName) (if truthy k then [d, k] else [d])]
    \<and> inspect (fst (insert_into prefix (withKey k (insert_op d)) dbName))
          (run resp order (snd (insert_into prefix (withKey k (insert_op d)) dbName)))
        = (if 0 \<in> set order
           then (if truthy (fst (resp 0)) then Rejected (fst (resp 0))
                 else Fulfilled (JArr [snd (resp 0)]))
           else Pending)
    \<and> inspect (fst (insert_into prefix (withKey k (insert_op (JArr [d]))) dbName))
          (run resp order (snd (insert_into prefix (withKey k (insert_op (JArr [d]))) dbName)))
        = (if 0 \<in> set order
           then (if truthy (fst (resp 0)) then Rejected (fst (resp 0))
                 else Fulfilled (JArr [snd (resp 0)]))
           else Pending)"
proof -
  have eq: "insert_op d = insert_op (JArr [d])"
    using assms by (simp add: insert_op_def to_array_def)
  have one: "issued (snd (insert_into prefix (withKey k (insert_op (JArr [d]))) dbName))
        = [DocInsert (getDbName prefix dbName) (if truthy k then [d, k] else [d])]"
    by (simp add: insert_into_def withKey_def insert_op_def to_array_def insert_each_init)
  have its: "items (withKey k (insert_op (JArr [d]))) = [d]"
    by (simp add: withKey_def insert_op_def to_array_def)
  have out: "inspect (fst (insert_into prefix (withKey k (insert_op (JArr [d]))) dbName))
          (run resp order (snd (insert_into prefix (withKey k (insert_op (JArr [d]))) dbName)))
        = (if 0 \<in> set order
           then (if truthy (fst (resp 0)) then Rejected (fst (resp 0))
                 else Fulfilled (JArr [snd (resp 0)]))
           else Pending)"
    by (rule insert_one_outcome [OF prod.collapse [symmetric] its])
  show ?thesis using one out unfolding eq by simp
qed

theorem insert_single_as_batch_witness:
  "insert_into (JStr ''test_'') (insert_op (JObj [(''name'', JStr ''jeff'')])) ''people''
     = insert_into (JStr ''test_'') (insert_op (JArr [JObj [(''name'', JStr ''jeff'')]])) ''people''
   \<and> issued (snd (insert_into (JStr ''test_'') (withKey JUndefined (insert_op (JObj [(''name'', JStr ''jeff'')]))) ''people''))
     = [DocInsert ''test_people'' [JObj [(''name'', JStr ''jeff'')]]]
   \<and> inspect (fst (insert_into (JStr ''test_'') (withKey JUndefined (insert_op (JObj [(''name'', JStr ''jeff'')]))) ''people''))
        (run (\<lambda>r. (JNull, JObj [(''ok'', JBool True)])) [0]
          (snd (insert_into (JStr ''test_'') (withKey JUndefined (insert_op (JObj [(''name'', JStr ''jeff'')]))) ''people'')))
     = Fulfilled (JArr [JObj [(''ok'', JBool True)]])
   \<and> inspect (fst (insert_into (JStr ''test_'') (withKey JUndefined (insert_op (JObj [(''name'', JStr ''jeff'')]))) ''people''))
        (run (\<lambda>r. (JStr ''conflict'', JUndefined)) [0]
          (snd (insert_into (JStr ''test_'') (withKey JUndefined (insert_op (JObj [(''name'', JStr ''jeff'')]))) ''people'')))
     = Rejected (JStr ''conflict'')"
proof -
  have h: "\<not> is_array (JObj [(''name'', JStr ''jeff'')])" by simp
  note w = insert_single_as_batch [OF h, where prefix = "JStr ''test_''" and dbName = "''people''"
        and k = JUndefined and resp = "\<lambda>r. (JNull, JObj [(''ok'', JBool True)])" and order = "[0]"]
  note v = insert_single_as_batch [OF h, where prefix = "JStr ''test_''" and dbName = "''people''"
        and k = JUndefined and resp = "\<lambda>r. (JStr ''conflict'', JUndefined)" and order = "[0]"]
  have a: "insert_into (JStr ''test_'') (insert_op (JObj [(''name'', JStr ''jeff'')])) ''people''
     = insert_into (JStr ''test_'') (insert_op (JArr [JObj [(''name'', JStr ''jeff'')]])) ''people''"
    using w by (elim conjE)
  have b: "issued (snd (insert_into (JStr ''test_'')
        (withKey JUndefined (insert_op (JObj [(''name'', JStr ''jeff'')]))) ''people''))
     = [DocInsert (getDbName (JStr ''test_'') ''people'')
          (if truthy JUndefined then [JObj [(''name'', JStr ''jeff'')], JUndefined]
           else [JObj [(''name'', JStr ''jeff'')]])]"
    using w by (elim conjE)
  have c: "inspect (fst (insert_into (JStr ''test_'') (withKey JUndefined (insert_op (JObj [(''name'', JStr ''jeff'')]))) ''people''))
        (run (\<lambda>r. (JNull, JObj [(''ok'', JBool True)])) [0]
          (snd (insert_into (JStr ''test_'') (withKey JUndefined (insert_op (JObj [(''name'', JStr ''jeff'')]))) ''people'')))
     = Fulfilled (JArr [JObj [(''ok'', JBool True)]])"
    using w by simp
  have e: "inspect (fst (insert_into (JStr ''test_'') (withKey JUndefined (insert_op (JObj [(''name'', JStr ''jeff'')]))) ''people''))
        (run (\<lambda>r. (JStr ''conflict'', JUndefined)) [0]
          (snd (insert_into (JStr ''test_'') (withKey JUndefined (insert_op (JObj [(''name'', JStr ''jeff'')]))) ''people'')))
     = Rejected (JStr ''conflict'')"
    using v by simp
  show ?thesis using a b c e by (simp add: getDbName_def)
qed

section \<open>One-shot operations\<close>

text \<open>
  The operations of one request: each resolves the database name, issues its request,
  and settles its promise with the answer: rejected with the error as it came, or
  fulfilled with the body (with nothing, for \<open>create\<close> and \<open>destroy\<close>).
\<close>

lemma one_shot_requests:
  "issued (snd (destroy prefix dbName)) = [DbDestroy (getDbName prefix dbName)]"
  "issued (snd (create prefix dbName)) = [DbCreate (getDbName prefix dbName)]"
  "issued (snd (get_from prefix docId dbName)) = [DocGet (getDbName prefix dbName) [docId]]"
  "issued (snd (getList_from prefix dbName)) = [DocList (getDbName prefix dbName)]"
  "issued (snd (getView_from prefix args dbName)) = [DocView (getDbName prefix dbName) args]"
  by (simp_all add: destroy_def create_def get_from_def getList_from_def getView_from_def
      q_defer_def call_def init_def)

lemma one_shot_outcomes:
  "inspect (fst (destroy prefix dbName)) (deliver 0 error body (snd (destroy prefix dbName)))
     = (if truthy error then Rejected error else Fulfilled JUndefined)"
  "inspect (fst (create prefix dbName)) (deliver 0 error body (snd (create prefix dbName)))
     = (if truthy error then Rejected error else Fulfilled JUndefined)"
  "inspect (fst (get_from prefix docId dbName))
     (deliver 0 error body (snd (get_from prefix docId dbName)))
     = (if truthy error then Rejected error else Fulfilled body)"
  "inspect (fst (getList_from prefix dbName)) (deliver 0 error body (snd (getList_from prefix dbName)))
     = (if truthy error then Rejected error else Fulfilled body)"
  "inspect (fst (getView_from prefix args dbName))
     (deliver 0 error body (snd (getView_from prefix args dbName)))
     = (if truthy error then Rejected error else Fulfilled body)"
  by (simp_all add: destroy_def create_def get_from_def getList_from_def getView_from_def
      q_defer_def call_def init_def deliver_def reject_def resolve_def)

text \<open>The name resolver, and the parameters of a view request.\<close>

lemma getDbName_prefix:
  "p \<noteq> [] \<Longrightarrow> getDbName (JStr p) dbName = p @ dbName"
  "getDbName JUndefined dbName = dbName"
  "getDbName (JStr []) dbName = dbName"
  by (simp_all add: getDbName_def)

lemma getView_params:
  "truthy params \<Longrightarrow>
     issued (snd (getView_from prefix (withParams params (getView d v)) dbName))
       = [DocView (getDbName prefix dbName) [d, v, params]]"
  "issued (snd (getView_from prefix (getView d v) dbName))
       = [DocView (getDbName prefix dbName) [d, v]]"
  by (simp_all add: getView_from_def withParams_def getView_def q_defer_def call_def init_def)

section \<open>Existence check\<close>

text \<open>The state in which \<open>checkDbExists\<close> returns: no answer has arrived, so \<open>dbList\<close>
  is still undefined at every name and every name issues its own list request.\<close>

lemma check_each_append:
  "check_each (xs @ ys) acc = check_each ys (check_each xs acc)"
proof (induction xs arbitrary: acc)
  case Nil
  then show ?case by simp
next
  case (Cons x xs)
  obtain ps st where acc: "acc = (ps, st)" by (cases acc)
  show ?case unfolding acc by (simp add: Let_def split: prod.splits add: Cons.IH)
qed

lemma check_each_init:
  "check_each names ([], init) =
     ([0..<length names],
      init\<lparr>issued := replicate (length names) DbList,
           waiting := map (\<lambda>(j, n). (j, CheckCb j n)) (enumerate 0 names),
           defers := replicate (length names) Pending\<rparr>)"
proof (induction names rule: rev_induct)
  case Nil
  then show ?case by (simp add: init_def)
next
  case (snoc x xs)
  then show ?case
    by (simp add: check_each_append q_defer_def call_def init_def replicate_append_same
        enumerate_append_eq)
qed


lemma checkDbExists_eq:
  "checkDbExists dbNames =
     (All [0..<length (to_array dbNames)],
      init\<lparr>issued := replicate (length (to_array dbNames)) DbList,
           waiting := map (\<lambda>(j, n). (j, CheckCb j n)) (enumerate 0 (to_array dbNames)),
           defers := replicate (length (to_array dbNames)) Pending\<rparr>)"
  by (simp add: checkDbExists_def check_each_init)





text \<open>A single name is checked as the one-element sequence of it.\<close>

lemma checkDbExists_single_name:
  "checkDbExists (JStr n) = checkDbExists (JArr [JStr n])"
  by (simp add: checkDbExists_def to_array_def)



text \<open>
  Claim C2 asks for exactly one list request per invocation, whatever the number of
  names. The guard \<open>if (dbList)\<close> is read inside \<open>forEach\<close>, before any answer can have
  arrived, so it is false for every name: \<open>N\<close> names issue \<open>N\<close> list requests, and two
  names issue two.
\<close>

theorem checkDbExists_one_fetch_per_name:
  "issued (snd (checkDbExists dbNames)) = replicate (length (to_array dbNames)) DbList
   \<and> issued (snd (checkDbExists (JArr [JStr ''a'', JStr ''b'']))) = [DbList, DbList]"
  by (simp add: checkDbExists_eq to_array_def numeral_2_eq_2)

text \<open>
  Claim C3 asks that a failure of the list request makes the aggregate of
  \<open>checkDbExists\<close> fail with the same error. The callback ignores its \<open>error\<close> argument,
  assigns the missing body to \<open>dbList\<close> and throws a TypeError in \<open>runChecks\<close>: the
  deferred stays pending, nothing is waiting any more, and the error reaches no one.
  \<open>get\<close>, answered with the same error, rejects with it.
\<close>

theorem checkDbExists_swallows_list_failure:
  "inspect (fst (checkDbExists (JStr ''people'')))
     (deliver 0 (JObj [(''error'', JStr ''unauthorized'')]) JUndefined
        (snd (checkDbExists (JStr ''people'')))) = Pending
   \<and> uncaught (deliver 0 (JObj [(''error'', JStr ''unauthorized'')]) JUndefined
        (snd (checkDbExists (JStr ''people'')))) = [TypeError]
   \<and> waiting (deliver 0 (JObj [(''error'', JStr ''unauthorized'')]) JUndefined
        (snd (checkDbExists (JStr ''people'')))) = []
   \<and> inspect (fst (get_from JUndefined (JStr ''jeff'') ''people''))
     (deliver 0 (JObj [(''error'', JStr ''unauthorized'')]) JUndefined
        (snd (get_from JUndefined (JStr ''jeff'') ''people'')))
       = Rejected (JObj [(''error'', JStr ''unauthorized'')])"
  by (simp add: checkDbExists_eq to_array_def deliver_def runChecks_def throw_def init_def
      get_from_def q_defer_def call_def reject_def)

section \<open>Delete by id\<close>

text \<open>
  Claim C4 asks that \<open>deleteDoc\<close> sends its get and its destroy request to the prefixed
  database name. \<open>from\<close> takes the handle for \<open>dbName\<close> as given and never calls
  \<open>getDbName\<close>: with the prefix \<open>test_\<close> configured, both requests go to \<open>people\<close>, while
  \<open>get\<close> goes to \<open>test_people\<close>.
\<close>

theorem deleteDoc_ignores_prefix:
  "issued (snd (deleteDoc_from (JStr ''jeff'') ''people''))
     = [DocGet ''people'' [JStr ''jeff'', JObj [(''revs_info'', JBool True)]]]
   \<and> issued (deliver 0 JNull (JObj [(''_rev'', JStr ''1-a'')])
        (snd (deleteDoc_from (JStr ''jeff'') ''people'')))
     = [DocGet ''people'' [JStr ''jeff'', JObj [(''revs_info'', JBool True)]],
        DocDestroy ''people'' [JStr ''jeff'', JStr ''1-a'']]
   \<and> getDbName (JStr ''test_'') ''people'' = ''test_people''
   \<and> issued (snd (get_from (JStr ''test_'') (JStr ''jeff'') ''people''))
     = [DocGet ''test_people'' [JStr ''jeff'']]"
  by (simp add: deleteDoc_from_def deliver_def init_def get_from_def q_defer_def call_def
      getDbName_def)

text \<open>With no callback waiting, no answer changes the state.\<close>

lemma run_idle: "waiting st = [] \<Longrightarrow> run resp order st = st"
  unfolding run_def by (induction order) (simp_all add: deliver_def)

text \<open>
  Claim C6. \<open>deleteDoc(docId).from(db)\<close> first issues the get request with
  \<open>revs_info\<close> and nothing else. If that request is answered with an error, no destroy
  request is ever issued and the promise is rejected with exactly that error, whatever
  arrives later. If it is answered without an error and with a body whose \<open>_rev\<close> is
  \<open>rv\<close>, the destroy request is issued then, with exactly \<open>docId\<close> and that \<open>rv\<close>; the
  promise is pending until the destroy request is answered, and is then fulfilled with
  the body of that answer, or rejected with its error.
\<close>

theorem deleteDoc_two_steps:
  assumes call: "deleteDoc_from docId db = (p, st)"
  shows "issued st = [DocGet db [docId, JObj [(''revs_info'', JBool True)]]]
    \<and> (truthy revError \<longrightarrow>
          inspect p (run resp order (deliver 0 revError revInfo st)) = Rejected revError
          \<and> issued (run resp order (deliver 0 revError revInfo st)) = issued st)
    \<and> (\<not> truthy revError \<and> get_prop revInfo ''_rev'' = Inr rv \<longrightarrow>
          issued (deliver 0 revError revInfo st) = issued st @ [DocDestroy db [docId, rv]]
          \<and> inspect p (deliver 0 revError revInfo st) = Pending
          \<and> issued (deliver 1 error body (deliver 0 revError revInfo st))
              = issued st @ [DocDestroy db [docId, rv]]
          \<and> inspect p (deliver 1 error body (deliver 0 revError revInfo st))
              = (if truthy error then Rejected error else Fulfilled body))"
proof -
  have p: "p = Deferred 0"
    and st: "st = init\<lparr>defers := [Pending],
                issued := [DocGet db [docId, JObj [(''revs_info'', JBool True)]]],
                waiting := [(0, RevCb 0 db docId)]\<rparr>"
    using call by (auto simp: deleteDoc_from_def q_defer_def call_def init_def)
  have first: "issued st = [DocGet db [docId, JObj [(''revs_info'', JBool True)]]]"
    by (simp add: st)
  have failed: "inspect p (run resp order (deliver 0 revError revInfo st)) = Rejected revError
          \<and> issued (run resp order (deliver 0 revError revInfo st)) = issued st"
    if "truthy revError"
  proof -
    have w: "waiting (deliver 0 revError revInfo st) = []"
      using that by (simp add: st deliver_def reject_def init_def)
    show ?thesis
      unfolding run_idle [OF w] using that
      by (simp add: p st deliver_def reject_def init_def)
  qed
  have fetched: "issued (deliver 0 revError revInfo st) = issued st @ [DocDestroy db [docId, rv]]
          \<and> inspect p (deliver 0 revError revInfo st) = Pending
          \<and> issued (deliver 1 error body (deliver 0 revError revInfo st))
              = issued st @ [DocDestroy db [docId, rv]]
          \<and> inspect p (deliver 1 error body (deliver 0 revError revInfo st))
              = (if truthy error then Rejected error else Fulfilled body)"
    if "\<not> truthy revError" "get_prop revInfo ''_rev'' = Inr rv"
    using that
    by (simp add: p st deliver_def reject_def resolve_def call_def init_def)
  show ?thesis using first failed fetched by blast
qed

theorem deleteDoc_two_steps_witness:
  "inspect (fst (deleteDoc_from (JStr ''jeff'') ''people''))
     (run (\<lambda>r. (JNull, JNull)) [1, 0]
        (deliver 0 (JStr ''not_found'') JUndefined (snd (deleteDoc_from (JStr ''jeff'') ''people''))))
     = Rejected (JStr ''not_found'')
   \<and> issued (run (\<lambda>r. (JNull, JNull)) [1, 0]
        (deliver 0 (JStr ''not_found'') JUndefined (snd (deleteDoc_from (JStr ''jeff'') ''people''))))
     = [DocGet ''people'' [JStr ''jeff'', JObj [(''revs_info'', JBool True)]]]
   \<and> issued (deliver 0 JNull (JObj [(''_id'', JStr ''jeff''), (''_rev'', JStr ''2-b'')])
        (snd (deleteDoc_from (JStr ''jeff'') ''people'')))
     = [DocGet ''people'' [JStr ''jeff'', JObj [(''revs_info'', JBool True)]],
        DocDestroy ''people'' [JStr ''jeff'', JStr ''2-b'']]
   \<and> inspect (fst (deleteDoc_from (JStr ''jeff'') ''people''))
        (deliver 1 JNull (JObj [(''ok'', JBool True)])
          (deliver 0 JNull (JObj [(''_id'', JStr ''jeff''), (''_rev'', JStr ''2-b'')])
            (snd (deleteDoc_from (JStr ''jeff'') ''people''))))
     = Fulfilled (JObj [(''ok'', JBool True)])"
proof -
  note a = deleteDoc_two_steps [OF prod.collapse [symmetric], where docId = "JStr ''jeff''"
      and db = "''people''" and revError = "JStr ''not_found''" and revInfo = JUndefined
      and resp = "\<lambda>r. (JNull, JNull)" and order = "[1, 0]"]
  note b = deleteDoc_two_steps [OF prod.collapse [symmetric], where docId = "JStr ''jeff''"
      and db = "''people''" and revError = JNull
      and revInfo = "JObj [(''_id'', JStr ''jeff''), (''_rev'', JStr ''2-b'')]"
      and rv = "JStr ''2-b''" and error = JNull and body = "JObj [(''ok'', JBool True)]"]
  have t: "truthy (JStr ''not_found'')" by simp
  have f: "\<not> truthy JNull \<and> get_prop (JObj [(''_id'', JStr ''jeff''), (''_rev'', JStr ''2-b'')]) ''_rev''
      = Inr (JStr ''2-b'')" by simp
  have a1: "inspect (fst (deleteDoc_from (JStr ''jeff'') ''people''))
     (run (\<lambda>r. (JNull, JNull)) [1, 0]
        (deliver 0 (JStr ''not_found'') JUndefined (snd (deleteDoc_from (JStr ''jeff'') ''people''))))
     = Rejected (JStr ''not_found'')"
    and a2: "issued (run (\<lambda>r. (JNull, JNull)) [1, 0]
        (deliver 0 (JStr ''not_found'') JUndefined (snd (deleteDoc_from (JStr ''jeff'') ''people''))))
     = [DocGet ''people'' [JStr ''jeff'', JObj [(''revs_info'', JBool True)]]]"
    using a t by simp_all
  have b1: "issued (deliver 0 JNull (JObj [(''_id'', JStr ''jeff''), (''_rev'', JStr ''2-b'')])
        (snd (deleteDoc_from (JStr ''jeff'') ''people'')))
     = [DocGet ''people'' [JStr ''jeff'', JObj [(''revs_info'', JBool True)]],
        DocDestroy ''people'' [JStr ''jeff'', JStr ''2-b'']]"
    and b2: "inspect (fst (deleteDoc_from (JStr ''jeff'') ''people''))
        (deliver 1 JNull (JObj [(''ok'', JBool True)])
          (deliver 0 JNull (JObj [(''_id'', JStr ''jeff''), (''_rev'', JStr ''2-b'')])
            (snd (deleteDoc_from (JStr ''jeff'') ''people''))))
     = Fulfilled (JObj [(''ok'', JBool True)])"
    using b f by simp_all
  show ?thesis using a1 a2 b1 b2 by simp
qed

section \<open>Design documents\<close>












text \<open>
  Two more runs of the loop in Node: an entry that is an array inherits \<open>map\<close> and
  \<open>reduce\<close> from \<open>Array.prototype\<close>, and both are sent; a view named \<open>hasOwnProperty\<close>
  hides the method that the guard calls, and \<open>to\<close> throws.
\<close>

lemma addDesign_inherited_members:
  "map_sum id (\<lambda>(p, st). issued st)
     (addDesign_to node_runtime JUndefined ''d'' [(''v'', JArr [])] ''db'')
     = Inr [DocInsert ''db''
              [JObj [(''language'', JStr ''javascript''),
                     (''views'', JObj [(''v'', JObj [(''map'', native ''map''),
                                                     (''reduce'', native ''reduce'')])])],
               JStr ''_design/d'']]"
  by (simp add: addDesign_to_def js_get_def js_call_def node_runtime_def native_def
      object_members_def q_defer_def call_def init_def getDbName_def)

lemma addDesign_guard_hidden:
  "addDesign_to node_runtime JUndefined ''d''
     [(''hasOwnProperty'', JObj [(''map'', JStr ''f'')])] ''db'' = Inl TypeError"
  by (simp add: addDesign_to_def js_get_def js_call_def q_defer_def init_def)


section \<open>Extracting identifiers\<close>

lemma js_to_key_primitive:
  "is_primitive v \<Longrightarrow> js_to_key rt v = Inr (js_to_string v)"
  by (simp add: js_to_key_def)

lemma js_get_at_key:
  assumes "js_to_key rt fieldName = Inr k"
  shows "js_get_at rt v fieldName = js_get rt v k"
  using assms by (auto simp: js_get_at_def js_get_def)

lemma extract_loop_rows:
  assumes key: "js_to_key rt fieldName = Inr k"
    and "list_all2 (\<lambda>x y. \<exists>v. js_get rt x k = Inr v \<and>
             (if truthy v then y = v
              else \<exists>w. js_get rt x ''value'' = Inr w \<and> js_get rt w k = Inr y)) data ids"
  shows "extract_loop rt data fieldName store = Inr (store @ ids)"
  using assms(2)
proof (induction data ids arbitrary: store rule: list_all2_induct)
  case Nil
  then show ?case by simp
next
  case (Cons x xs y ys)
  from Cons.hyps(1) obtain v where v: "js_get rt x k = Inr v"
    and alt: "if truthy v then y = v
              else \<exists>w. js_get rt x ''value'' = Inr w \<and> js_get rt w k = Inr y"
    by blast
  show ?case
  proof (cases "truthy v")
    case True
    with v alt Cons.IH [of "store @ [y]"] show ?thesis
      by (simp add: js_get_at_key [OF key])
  next
    case False
    with alt obtain w where "js_get rt x ''value'' = Inr w" "js_get rt w k = Inr y" by auto
    with v False Cons.IH [of "store @ [y]"] show ?thesis
      by (simp add: js_get_at_key [OF key])
  qed
qed

lemma extract_loop_throws:
  fixes k :: string and rt :: runtime
  defines "R \<equiv> \<lambda>x y. \<exists>v. js_get rt x k = Inr v \<and>
             (if truthy v then y = v
              else \<exists>w. js_get rt x ''value'' = Inr w \<and> js_get rt w k = Inr y)"
  assumes key: "js_to_key rt fieldName = Inr k"
    and "\<exists>x\<in>set data. \<forall>y. \<not> R x y"
  shows "extract_loop rt data fieldName store = Inl TypeError"
  using assms(3)
proof (induction data arbitrary: store)
  case Nil
  then show ?case by simp
next
  case (Cons x xs)
  have ex: "e = TypeError" for e :: js_exception by (cases e)
  consider (bad) "\<forall>y. \<not> R x y" | (good) y where "R x y" "\<exists>x\<in>set xs. \<forall>y. \<not> R x y"
    using Cons.prems by auto
  then show ?case
  proof cases
    case bad
    then show ?thesis
      unfolding R_def by (auto simp: ex js_get_at_key [OF key] split: sum.splits)
  next
    case good
    from good(1) obtain v where v: "js_get rt x k = Inr v"
      and alt: "if truthy v then y = v
                else \<exists>w. js_get rt x ''value'' = Inr w \<and> js_get rt w k = Inr y"
      unfolding R_def by blast
    have step: "extract_loop rt (x # xs) fieldName store
        = extract_loop rt xs fieldName (store @ [y])"
    proof (cases "truthy v")
      case True
      with v alt show ?thesis by (simp add: js_get_at_key [OF key])
    next
      case False
      with alt obtain w where "js_get rt x ''value'' = Inr w" "js_get rt w k = Inr y" by auto
      with v False show ?thesis by (simp add: js_get_at_key [OF key])
    qed
    show ?thesis unfolding step by (rule Cons.IH [OF good(2)])
  qed
qed

text \<open>
  Claim C10 says that \<open>extractIds\<close> returns an array of the same length for every array
  \<open>data\<close>. On an element whose \<open>fieldName\<close> property is falsy and which has no \<open>value\<close>,
  the read \<open>data[i].value[fieldName]\<close> throws: \<open>extractIds([{}])\<close> returns nothing.
\<close>

theorem extractIds_throws_counterexample:
  "extractIds node_runtime [JObj []] JUndefined = Inl TypeError"
  by (simp add: extractIds_def js_get_at_def js_to_key_def js_get_def node_runtime_def
      object_members_def)

text \<open>
  Claim C10, as the source has it. Let \<open>k\<close> be the property key of \<open>fieldName\<close>, or
  \<open>id\<close> when \<open>fieldName\<close> is omitted or falsy. In every runtime, for every array \<open>data\<close>
  whose elements can all be read (for each element, \<open>data[i][k]\<close> is truthy, or
  \<open>data[i].value\<close> is not null or undefined), \<open>extractIds\<close> returns the array of the
  same length whose element \<open>i\<close> is \<open>data[i][k]\<close> when that is truthy and
  \<open>data[i].value[k]\<close> otherwise, own or inherited as the read finds it; on an array with
  an element that cannot be read so, it throws a TypeError. The function is pure: it
  takes and returns values, and the state of the transport is not among them.
\<close>

theorem extractIds_rows:
  assumes k: "js_to_key rt (if truthy fieldName then fieldName else JStr ''id'') = Inr k"
  shows "(list_all2 (\<lambda>x y. \<exists>v. js_get rt x k = Inr v \<and>
             (if truthy v then y = v
              else \<exists>w. js_get rt x ''value'' = Inr w \<and> js_get rt w k = Inr y)) data ids
          \<longrightarrow> extractIds rt data fieldName = Inr ids \<and> length ids = length data)
    \<and> ((\<exists>x\<in>set data. \<forall>y. \<not> (\<exists>v. js_get rt x k = Inr v \<and>
             (if truthy v then y = v
              else \<exists>w. js_get rt x ''value'' = Inr w \<and> js_get rt w k = Inr y)))
          \<longrightarrow> extractIds rt data fieldName = Inl TypeError)"
proof (intro conjI impI)
  assume rows: "list_all2 (\<lambda>x y. \<exists>v. js_get rt x k = Inr v \<and>
             (if truthy v then y = v
              else \<exists>w. js_get rt x ''value'' = Inr w \<and> js_get rt w k = Inr y)) data ids"
  show "extractIds rt data fieldName = Inr ids"
    using extract_loop_rows [OF k rows, of "[]"] by (simp add: extractIds_def)
  show "length ids = length data"
    using list_all2_lengthD [OF rows] by simp
next
  assume "\<exists>x\<in>set data. \<forall>y. \<not> (\<exists>v. js_get rt x k = Inr v \<and>
             (if truthy v then y = v
              else \<exists>w. js_get rt x ''value'' = Inr w \<and> js_get rt w k = Inr y))"
  then show "extractIds rt data fieldName = Inl TypeError"
    using extract_loop_throws [OF k, of data "[]"] by (simp add: extractIds_def)
qed

theorem extractIds_rows_witness:
  "extractIds node_runtime
     [JObj [(''id'', JStr ''a'')], JObj [(''id'', JStr []), (''value'', JObj [(''id'', JNum ''3'')])]]
     JUndefined = Inr [JStr ''a'', JNum ''3'']
   \<and> extractIds node_runtime [JObj [(''id'', JStr ''a'')], JNull] JUndefined = Inl TypeError
   \<and> extractIds node_runtime [JObj [(''id'', JStr ''a'')]] (JStr ''constructor'')
       = Inr [native ''Object'']"
proof -
  have k: "js_to_key node_runtime (if truthy JUndefined then JUndefined else JStr ''id'')
      = Inr ''id''"
    by (simp add: js_to_key_def)
  have c: "js_to_key node_runtime
      (if truthy (JStr ''constructor'') then JStr ''constructor'' else JStr ''id'')
      = Inr ''constructor''"
    by (simp add: js_to_key_def)
  have rows: "list_all2 (\<lambda>x y. \<exists>v. js_get node_runtime x ''id'' = Inr v \<and>
             (if truthy v then y = v
              else \<exists>w. js_get node_runtime x ''value'' = Inr w \<and> js_get node_runtime w ''id'' = Inr y))
       [JObj [(''id'', JStr ''a'')], JObj [(''id'', JStr []), (''value'', JObj [(''id'', JNum ''3'')])]]
       [JStr ''a'', JNum ''3'']"
    by (simp add: js_get_def)
  have bad: "\<exists>x\<in>set [JObj [(''id'', JStr ''a'')], JNull]. \<forall>y. \<not> (\<exists>v. js_get node_runtime x ''id'' = Inr v \<and>
             (if truthy v then y = v
              else \<exists>w. js_get node_runtime x ''value'' = Inr w \<and> js_get node_runtime w ''id'' = Inr y))"
    by (simp add: js_get_def)
  have inh: "list_all2 (\<lambda>x y. \<exists>v. js_get node_runtime x ''constructor'' = Inr v \<and>
             (if truthy v then y = v
              else \<exists>w. js_get node_runtime x ''value'' = Inr w
                     \<and> js_get node_runtime w ''constructor'' = Inr y))
       [JObj [(''id'', JStr ''a'')]] [native ''Object'']"
    by (simp add: js_get_def node_runtime_def object_members_def native_def)
  from extractIds_rows [OF k, where
      data = "[JObj [(''id'', JStr ''a'')], JObj [(''id'', JStr []), (''value'', JObj [(''id'', JNum ''3'')])]]"
      and ids = "[JStr ''a'', JNum ''3'']"] rows
  have a: "extractIds node_runtime
     [JObj [(''id'', JStr ''a'')], JObj [(''id'', JStr []), (''value'', JObj [(''id'', JNum ''3'')])]]
     JUndefined = Inr [JStr ''a'', JNum ''3'']" by blast
  from extractIds_rows [OF k, where
      data = "[JObj [(''id'', JStr ''a'')], JNull]" and ids = "[]"] bad
  have b: "extractIds node_runtime [JObj [(''id'', JStr ''a'')], JNull] JUndefined = Inl TypeError"
    by blast
  from extractIds_rows [OF c, where
      data = "[JObj [(''id'', JStr ''a'')]]" and ids = "[native ''Object'']"] inh
  have d: "extractIds node_runtime [JObj [(''id'', JStr ''a'')]] (JStr ''constructor'')
       = Inr [native ''Object'']" by blast
  show ?thesis using a b d by simp
qed

text \<open>
  A \<open>fieldName\<close> that is a primitive value has its ToString as key. One that cannot be
  turned into a key makes the first read throw, so that only the empty array is
  answered; an object is such a \<open>fieldName\<close> when it has a \<open>toString\<close> property of its
  own that is not a function, and gives the key \<open>[object Object]\<close> when it has none.
\<close>

lemma extractIds_primitive_key:
  "is_primitive fieldName \<Longrightarrow>
     js_to_key rt (if truthy fieldName then fieldName else JStr ''id'')
       = Inr (js_to_string (if truthy fieldName then fieldName else JStr ''id''))"
  by (simp add: js_to_key_def)

lemma extractIds_no_key:
  assumes "js_to_key rt (if truthy fieldName then fieldName else JStr ''id'') = Inl ex"
  shows "extractIds rt (x # rest) fieldName = Inl TypeError"
    and "extractIds rt [] fieldName = Inr []"
proof -
  have ex: "e = TypeError" for e :: js_exception by (cases e)
  show "extractIds rt (x # rest) fieldName = Inl TypeError"
    using assms by (cases "truthy fieldName") (simp_all add: extractIds_def js_get_at_def js_to_key_primitive ex)
  show "extractIds rt [] fieldName = Inr []"
    by (simp add: extractIds_def)
qed

lemma js_to_key_object:
  "js_to_key node_runtime (JObj [(''a'', JNull)]) = Inr ''[object Object]''"
  "js_to_key node_runtime (JObj [(''toString'', JNum ''1'')]) = Inl TypeError"
  "js_to_key node_runtime (JArr [JStr ''a'', JNum ''1'']) = Inr ''a,1''"
  by (simp_all add: js_to_key_def try_method_def js_get_def node_runtime_def
      object_members_def native_def digits.simps)

end
